theory Spec2Isabelle
  imports Complex_Main
begin

section \<open>JavaScript values and arrays\<close>

text \<open>
  The numbers of \<^verbatim>\<open>src/lib/svg-path-to-pixi.js\<close> come from \<^verbatim>\<open>Number\<close> applied to decimal
  tokens and from \<^verbatim>\<open>+\<close>, \<^verbatim>\<open>-\<close> and \<^verbatim>\<open>*\<close>. They are modelled as exact rationals (the
  rounding of IEEE doubles is left out), with \<open>NaN\<close> kept because arithmetic on
  \<^verbatim>\<open>undefined\<close> produces it, and \<open>Undefined\<close> kept because a read past the end of an array
  produces it.
\<close>

datatype jsval = Num rat | NaN | Undefined

datatype error = ReferenceError | TypeError

text \<open>The arithmetic operators on numbers and \<^verbatim>\<open>undefined\<close> (ToNumber of \<^verbatim>\<open>undefined\<close> is NaN).\<close>

fun js_add :: "jsval \<Rightarrow> jsval \<Rightarrow> jsval" where
  "js_add (Num a) (Num b) = Num (a + b)"
| "js_add _ _ = NaN"

fun js_sub :: "jsval \<Rightarrow> jsval \<Rightarrow> jsval" where
  "js_sub (Num a) (Num b) = Num (a - b)"
| "js_sub _ _ = NaN"

fun js_mul :: "jsval \<Rightarrow> jsval \<Rightarrow> jsval" where
  "js_mul (Num a) (Num b) = Num (a * b)"
| "js_mul _ _ = NaN"

text \<open>ToBoolean: \<^verbatim>\<open>0\<close>, \<^verbatim>\<open>NaN\<close> and \<^verbatim>\<open>undefined\<close> are falsy.\<close>

fun truthy :: "jsval \<Rightarrow> bool" where
  "truthy (Num a) = (a \<noteq> 0)"
| "truthy NaN = False"
| "truthy Undefined = False"

text \<open>The operator \<^verbatim>\<open>===\<close>: NaN is not equal to itself.\<close>

fun strict_eq :: "jsval \<Rightarrow> jsval \<Rightarrow> bool" where
  "strict_eq (Num a) (Num b) = (a = b)"
| "strict_eq Undefined Undefined = True"
| "strict_eq _ _ = False"

text \<open>\<^verbatim>\<open>a[i]\<close>: a read out of range gives \<^verbatim>\<open>undefined\<close>.\<close>

definition idx :: "jsval list \<Rightarrow> nat \<Rightarrow> jsval" where
  "idx a i = (if i < length a then a ! i else Undefined)"

text \<open>
  \<^verbatim>\<open>a[i] = v\<close>: a write out of range extends the array. The holes such a write leaves are
  written as \<open>Undefined\<close>.
\<close>

definition arr_set :: "jsval list \<Rightarrow> nat \<Rightarrow> jsval \<Rightarrow> jsval list" where
  "arr_set a i v =
     (if i < length a then a[i := v] else a @ replicate (i - length a) Undefined @ [v])"

text \<open>
  \<^verbatim>\<open>a.slice(start, end)\<close>: a negative index counts from the end, both indices are clamped to
  the array, and a missing \<^verbatim>\<open>end\<close> is the length.
\<close>

definition rel_index :: "int \<Rightarrow> nat \<Rightarrow> nat" where
  "rel_index k n = (if k < 0 then nat (max (int n + k) 0) else min (nat k) n)"

definition slice :: "int \<Rightarrow> int option \<Rightarrow> 'a list \<Rightarrow> 'a list" where
  "slice start end a =
     (let n = length a;
          from = rel_index start n;
          to = (case end of None \<Rightarrow> n | Some e \<Rightarrow> rel_index e n)
      in drop from (take to a))"

text \<open>\<^verbatim>\<open>isEqual\<close> (line 27).\<close>

definition isEqual :: "jsval list \<Rightarrow> jsval list \<Rightarrow> bool" where
  "isEqual a1 a2 \<longleftrightarrow>
     length a1 = length a2 \<and> list_all (\<lambda>(i, v). strict_eq v (idx a2 i)) (enumerate 0 a1)"

section \<open>The two regular expressions\<close>

text \<open>
  Strings are lists of characters. \<^verbatim>\<open>commandRegex\<close> is
  \<^verbatim>\<open>/[A-DF-Z] ?(?:-?[\d\.]+[, ]?)*/gi\<close> and \<^verbatim>\<open>coordsRegex\<close> is \<^verbatim>\<open>/-?\d+(?:\.\d+)?/g\<close>.
  Each matcher below takes the text at the position tried and returns the matched text and
  the text after it, or \<open>None\<close> when there is no match at that position. No pattern is
  followed by anything that could fail, so the greedy choice is always the one the
  backtracking matcher keeps.
\<close>

definition isDigit :: "char \<Rightarrow> bool" where
  "isDigit c \<longleftrightarrow> c \<in> set ''0123456789''"

definition isDigitOrDot :: "char \<Rightarrow> bool" where
  "isDigitOrDot c \<longleftrightarrow> isDigit c \<or> c = CHR ''.''"

text \<open>\<^verbatim>\<open>[A-DF-Z]\<close> under the flag \<^verbatim>\<open>i\<close>: every ASCII letter but E and e.\<close>

definition isCommandLetter :: "char \<Rightarrow> bool" where
  "isCommandLetter c \<longleftrightarrow>
     c \<in> set ''ABCDFGHIJKLMNOPQRSTUVWXYZabcdfghijklmnopqrstuvwxyz''"

text \<open>An optional single character: \<^verbatim>\<open>-?\<close>, \<^verbatim>\<open> ?\<close>, \<^verbatim>\<open>[, ]?\<close>.\<close>

definition optChar :: "(char \<Rightarrow> bool) \<Rightarrow> string \<Rightarrow> string \<times> string" where
  "optChar P s = (case s of [] \<Rightarrow> ([], s) | c # r \<Rightarrow> if P c then ([c], r) else ([], s))"

text \<open>
  One repetition \<^verbatim>\<open>-?[\d\.]+[, ]?\<close>. When the sign is taken and no digit or dot follows,
  the matcher retries without the sign and fails on the sign itself, so the group fails
  either way.
\<close>

definition matchArgGroup :: "string \<Rightarrow> (string \<times> string) option" where
  "matchArgGroup s =
     (let (sg, r1) = optChar (\<lambda>c. c = CHR ''-'') s;
          run = takeWhile isDigitOrDot r1;
          r2 = dropWhile isDigitOrDot r1
      in if run = [] then None
         else (let (sep, r3) = optChar (\<lambda>c. c = CHR '','' \<or> c = CHR '' '') r2
               in Some (sg @ run @ sep, r3)))"

lemma optChar_length: "optChar P s = (m, r) \<Longrightarrow> length r \<le> length s"
  by (auto simp: optChar_def split: list.splits if_splits)

lemma matchArgGroup_shorter:
  assumes "matchArgGroup s = Some (g, r)"
  shows "length r < length s"
proof -
  obtain sg r1 where o1: "optChar (\<lambda>c. c = CHR ''-'') s = (sg, r1)"
    by (cases "optChar (\<lambda>c. c = CHR ''-'') s")
  let ?r2 = "dropWhile isDigitOrDot r1"
  obtain sep r3 where o2: "optChar (\<lambda>c. c = CHR '','' \<or> c = CHR '' '') ?r2 = (sep, r3)"
    by (cases "optChar (\<lambda>c. c = CHR '','' \<or> c = CHR '' '') ?r2")
  from assms o1 o2 have run: "takeWhile isDigitOrDot r1 \<noteq> []" and r: "r = r3"
    by (auto simp: matchArgGroup_def Let_def split: if_splits)
  have "length (takeWhile isDigitOrDot r1) + length ?r2 = length r1"
    by (metis length_append takeWhile_dropWhile_id)
  with run have "length ?r2 < length r1"
    by (cases "takeWhile isDigitOrDot r1") auto
  with optChar_length [OF o1] optChar_length [OF o2] r show ?thesis
    by simp
qed

text \<open>The repetition \<^verbatim>\<open>(?:-?[\d\.]+[, ]?)*\<close>.\<close>

function matchArgs :: "string \<Rightarrow> string \<times> string" where
  "matchArgs s =
     (case matchArgGroup s of
        None \<Rightarrow> ([], s)
      | Some (g, r) \<Rightarrow> (let (gs, r') = matchArgs r in (g @ gs, r')))"
  by pat_completeness auto
termination
  by (relation "measure length") (auto dest: matchArgGroup_shorter)

declare matchArgs.simps [simp del]

text \<open>\<^verbatim>\<open>commandRegex\<close> tried at one position.\<close>

definition matchCommandAt :: "string \<Rightarrow> (string \<times> string) option" where
  "matchCommandAt s =
     (case s of
        [] \<Rightarrow> None
      | c # r \<Rightarrow>
          if isCommandLetter c
          then (let (sp, r1) = optChar (\<lambda>c. c = CHR '' '') r;
                    (as, r2) = matchArgs r1
                in Some (c # sp @ as, r2))
          else None)"

lemma matchArgs_length: "matchArgs s = (m, r) \<Longrightarrow> length r \<le> length s"
proof (induction s arbitrary: m r rule: matchArgs.induct)
  case (1 s)
  show ?case
  proof (cases "matchArgGroup s")
    case None
    with "1.prems" show ?thesis by (simp add: matchArgs.simps)
  next
    case (Some p)
    obtain g r0 where p: "p = (g, r0)" by (cases p)
    obtain gs r' where rec: "matchArgs r0 = (gs, r')" by (cases "matchArgs r0")
    from "1.prems" Some p rec have "r = r'" by (simp add: matchArgs.simps)
    moreover from "1.IH" [OF Some p [symmetric] rec] have "length r' \<le> length r0" .
    moreover from Some p have "length r0 < length s" by (auto dest: matchArgGroup_shorter)
    ultimately show ?thesis by simp
  qed
qed

lemma matchCommandAt_shorter: "matchCommandAt s = Some (m, r) \<Longrightarrow> length r < length s"
  by (auto simp: matchCommandAt_def split: list.splits if_splits prod.splits
      dest!: matchArgs_length optChar_length)

text \<open>
  \<^verbatim>\<open>d.match(commandRegex)\<close> with the flag \<^verbatim>\<open>g\<close>: every match, left to right, each search
  resuming where the previous match ended; the result is \<^verbatim>\<open>null\<close> when there is none.
\<close>

function matchAllCommands :: "string \<Rightarrow> string list" where
  "matchAllCommands s =
     (if s = [] then []
      else (case matchCommandAt s of
              Some (m, r) \<Rightarrow> m # matchAllCommands r
            | None \<Rightarrow> matchAllCommands (tl s)))"
  by pat_completeness auto
termination
  by (relation "measure length") (auto dest: matchCommandAt_shorter)

declare matchAllCommands.simps [simp del]

definition match_commandRegex :: "string \<Rightarrow> string list option" where
  "match_commandRegex d = (case matchAllCommands d of [] \<Rightarrow> None | ms \<Rightarrow> Some ms)"

text \<open>\<^verbatim>\<open>coordsRegex\<close> tried at one position: \<^verbatim>\<open>-?\d+(?:\.\d+)?\<close>.\<close>

definition matchCoordAt :: "string \<Rightarrow> (string \<times> string) option" where
  "matchCoordAt s =
     (let (sg, r1) = optChar (\<lambda>c. c = CHR ''-'') s;
          ip = takeWhile isDigit r1;
          r2 = dropWhile isDigit r1
      in if ip = [] then None
         else (case r2 of
                 c # r3 \<Rightarrow>
                   if c = CHR ''.'' \<and> takeWhile isDigit r3 \<noteq> []
                   then Some (sg @ ip @ c # takeWhile isDigit r3, dropWhile isDigit r3)
                   else Some (sg @ ip, r2)
               | [] \<Rightarrow> Some (sg @ ip, r2)))"

lemma dropWhile_shorter: "takeWhile P xs \<noteq> [] \<Longrightarrow> length (dropWhile P xs) < length xs"
  by (cases xs) (auto simp: le_imp_less_Suc length_dropWhile_le split: if_splits)

lemma matchCoordAt_shorter:
  assumes "matchCoordAt s = Some (m, r)"
  shows "length r < length s"
proof -
  obtain sg r1 where o1: "optChar (\<lambda>c. c = CHR ''-'') s = (sg, r1)"
    by (cases "optChar (\<lambda>c. c = CHR ''-'') s")
  let ?r2 = "dropWhile isDigit r1"
  from assms o1 have ip: "takeWhile isDigit r1 \<noteq> []"
    by (auto simp: matchCoordAt_def Let_def split: if_splits)
  then have lt: "length ?r2 < length r1" by (rule dropWhile_shorter)
  have "length r \<le> length ?r2"
  proof (cases ?r2)
    case Nil
    with assms o1 ip show ?thesis by (simp add: matchCoordAt_def Let_def)
  next
    case (Cons c r3)
    have "length (dropWhile isDigit r3) \<le> length r3" by (rule length_dropWhile_le)
    moreover from assms o1 ip Cons have "r = dropWhile isDigit r3 \<or> r = c # r3"
      by (auto simp: matchCoordAt_def Let_def split: if_splits)
    ultimately show ?thesis using Cons by auto
  qed
  with lt optChar_length [OF o1] show ?thesis by simp
qed

function matchAllCoords :: "string \<Rightarrow> string list" where
  "matchAllCoords s =
     (if s = [] then []
      else (case matchCoordAt s of
              Some (m, r) \<Rightarrow> m # matchAllCoords r
            | None \<Rightarrow> matchAllCoords (tl s)))"
  by pat_completeness auto
termination
  by (relation "measure length") (auto dest: matchCoordAt_shorter)

declare matchAllCoords.simps [simp del]

definition match_coordsRegex :: "string \<Rightarrow> string list option" where
  "match_coordsRegex seg = (case matchAllCoords seg of [] \<Rightarrow> None | ms \<Rightarrow> Some ms)"

text \<open>
  \<^verbatim>\<open>Number\<close> on a token of \<^verbatim>\<open>coordsRegex\<close>: an optional sign, an integer part and an optional
  fraction, read in base ten.
\<close>

definition digitsVal :: "string \<Rightarrow> nat" where
  "digitsVal ds = foldl (\<lambda>n c. 10 * n + (of_char c - 48)) 0 ds"

definition Number :: "string \<Rightarrow> jsval" where
  "Number tok =
     (let (sg, body) = optChar (\<lambda>c. c = CHR ''-'') tok;
          ip = takeWhile isDigit body;
          fp = (case dropWhile isDigit body of [] \<Rightarrow> [] | c # f \<Rightarrow> f);
          v = of_nat (digitsVal ip) + of_nat (digitsVal fp) / 10 ^ length fp
      in Num (if sg = [] then v else - v))"

section \<open>Path state and draw commands\<close>

text \<open>
  The three \<^verbatim>\<open>let\<close> variables of \<^verbatim>\<open>parsePathData\<close> (lines 32 to 36). \<^verbatim>\<open>lastControl\<close> and
  \<^verbatim>\<open>firstPoint\<close> start out \<^verbatim>\<open>undefined\<close>, which is \<open>None\<close> here.
\<close>

record path_state =
  lastPoint :: "jsval list"
  lastControl :: "jsval list option"
  firstPoint :: "jsval list option"

definition initial_state :: path_state where
  "initial_state = \<lparr>lastPoint = [Num 0, Num 0], lastControl = None, firstPoint = None\<rparr>"

record DrawCommand =
  commandChar :: char
  coords :: "jsval list"

text \<open>
  Every function of the parsing pipeline reads or writes the three variables and may throw,
  so each one is a stage: it takes the state and its argument and gives an error or the new
  state and its result.
\<close>

type_synonym ('a, 'b) stage = "path_state \<Rightarrow> 'a \<Rightarrow> error + path_state \<times> 'b"

text \<open>
  Modelled from the spec: \<^verbatim>\<open>pipe\<close> is imported from \<^verbatim>\<open>./utils\<close>, which is not among the
  sources. Section 9 of the specification calls the handlers a "stateful pipeline as
  composed pure functions", and the call sites (\<^verbatim>\<open>pipe(getCommandObj, cmdPipe)\<close> applied to
  \<^verbatim>\<open>(command, segment)\<close>) fix the order: the first function receives the arguments and each
  later one the result of the one before. \<^verbatim>\<open>pipe(f, g, h)\<close> is \<open>pipe f (pipe g h)\<close>.
\<close>

definition pipe :: "('a, 'b) stage \<Rightarrow> ('b, 'c) stage \<Rightarrow> ('a, 'c) stage" where
  "pipe f g = (\<lambda>s x. case f s x of Inl e \<Rightarrow> Inl e | Inr (s', y) \<Rightarrow> g s' y)"

text \<open>
  Modelled from the spec: \<^verbatim>\<open>chunk\<close> is imported from \<^verbatim>\<open>./utils\<close>, which is not among the
  sources. Section 4.2, argument chunking: "the arguments are partitioned into consecutive
  groups of that arity, each group producing one operation [...] processed strictly in
  order". A partition keeps every element, so what is left after the last full group forms
  a shorter last group.
\<close>

function chunk :: "'a list \<Rightarrow> nat \<Rightarrow> 'a list list" where
  "chunk xs n = (if xs = [] \<or> n = 0 then [] else take n xs # chunk (drop n xs) n)"
  by pat_completeness auto
termination
  by (relation "measure (\<lambda>(xs, n). length xs)") auto

declare chunk.simps [simp del]

text \<open>\<^verbatim>\<open>seq.map(f)\<close> for a stage \<open>f\<close>: the elements in order, each on the state the previous left.\<close>

fun map_stage :: "('a, 'b) stage \<Rightarrow> ('a list, 'b list) stage" where
  "map_stage f s [] = Inr (s, [])"
| "map_stage f s (x # xs) =
     (case f s x of
        Inl e \<Rightarrow> Inl e
      | Inr (s', y) \<Rightarrow>
          (case map_stage f s' xs of Inl e \<Rightarrow> Inl e | Inr (s'', ys) \<Rightarrow> Inr (s'', y # ys)))"

section \<open>The functions of parsePathData\<close>

definition numbOfArgsByCommand :: "char \<rightharpoonup> nat" where
  "numbOfArgsByCommand =
     map_of [(CHR ''M'', 2), (CHR ''L'', 2), (CHR ''T'', 2), (CHR ''Q'', 4), (CHR ''S'', 4),
             (CHR ''C'', 6)]"

definition pixiDrawFns :: "char \<rightharpoonup> string" where
  "pixiDrawFns =
     map_of [(CHR ''M'', ''moveTo''), (CHR ''L'', ''lineTo''), (CHR ''Q'', ''quadraticCurveTo''),
             (CHR ''C'', ''bezierCurveTo'')]"

definition storeFirstPoint :: "(DrawCommand, DrawCommand) stage" where
  "storeFirstPoint s c = Inr (s\<lparr>firstPoint := Some (slice 0 (Some 2) (coords c))\<rparr>, c)"

definition storeLastPoint :: "(DrawCommand, DrawCommand) stage" where
  "storeLastPoint s c = Inr (s\<lparr>lastPoint := slice (- 2) None (coords c)\<rparr>, c)"

definition storeLastControl :: "(DrawCommand, DrawCommand) stage" where
  "storeLastControl s c = Inr (s\<lparr>lastControl := Some (slice (- 4) (Some (- 2)) (coords c))\<rparr>, c)"

text \<open>\<^verbatim>\<open>segment.charAt(0)\<close>: the empty string for an empty segment, written \<open>None\<close>.\<close>

definition getCommand :: "string \<Rightarrow> char option" where
  "getCommand segment = (case segment of [] \<Rightarrow> None | c # _ \<Rightarrow> Some c)"

text \<open>
  \<^verbatim>\<open>getCommandObj\<close>: \<^verbatim>\<open>segment.match(coordsRegex)\<close> is \<^verbatim>\<open>null\<close> for a segment without a
  number, and \<^verbatim>\<open>.map\<close> on it throws.
\<close>

definition getCommandObj :: "(char \<times> string, DrawCommand) stage" where
  "getCommandObj s a =
     (case match_coordsRegex (snd a) of
        None \<Rightarrow> Inl TypeError
      | Some toks \<Rightarrow> Inr (s, \<lparr>commandChar = fst a, coords = map Number toks\<rparr>))"

text \<open>
  \<^verbatim>\<open>toLine\<close>. For \<^verbatim>\<open>H\<close> and \<^verbatim>\<open>V\<close> the variable \<^verbatim>\<open>basePoint\<close> is the array \<^verbatim>\<open>lastPoint\<close>
  itself, so every assignment \<^verbatim>\<open>basePoint[axis] = arg\<close> also changes \<^verbatim>\<open>lastPoint\<close>; for
  \<^verbatim>\<open>h\<close> and \<^verbatim>\<open>v\<close> it is a fresh \<^verbatim>\<open>[0,0]\<close>. The value of the assignment is \<^verbatim>\<open>arg\<close>, so
  \<^verbatim>\<open>(basePoint[axis] = arg) && basePoint\<close> is \<^verbatim>\<open>basePoint\<close> for a truthy \<^verbatim>\<open>arg\<close> and \<^verbatim>\<open>arg\<close>
  otherwise; \<^verbatim>\<open>concat\<close> appends the elements of an array and a number as it is. The
  reducer is \<open>toLine_step\<close>, on the pair of \<^verbatim>\<open>basePoint\<close> and \<^verbatim>\<open>list\<close>.
\<close>

definition toLine_step :: "nat \<Rightarrow> jsval list \<times> jsval list \<Rightarrow> jsval \<Rightarrow> jsval list \<times> jsval list" where
  "toLine_step axis acc arg =
     (let basePoint = arr_set (fst acc) axis arg
      in (basePoint, snd acc @ (if truthy arg then basePoint else [arg])))"

definition toLine :: "(DrawCommand, DrawCommand) stage" where
  "toLine s c =
     (let isAbsolute = (commandChar c \<in> {CHR ''H'', CHR ''V''});
          axis = (if commandChar c \<in> {CHR ''H'', CHR ''h''} then 0 else 1);
          basePoint = (if isAbsolute then lastPoint s else [Num 0, Num 0]);
          (basePoint', list) = foldl (toLine_step axis) (basePoint, []) (coords c)
      in Inr (if isAbsolute then s\<lparr>lastPoint := basePoint'\<rparr> else s,
              \<lparr>commandChar = (if isAbsolute then CHR ''L'' else CHR ''l''), coords = list\<rparr>))"

text \<open>\<^verbatim>\<open>toUpperCase\<close> on a one-character string.\<close>

definition toUpperCase :: "char \<Rightarrow> char" where
  "toUpperCase c =
     (case map_of (zip ''abcdefghijklmnopqrstuvwxyz'' ''ABCDEFGHIJKLMNOPQRSTUVWXYZ'') c of
        Some u \<Rightarrow> u
      | None \<Rightarrow> c)"

text \<open>
  \<^verbatim>\<open>toAbsolute\<close>. Its coordinates are \<^verbatim>\<open>coords.map((val, idx) => val + lastPoint[idx % 2])\<close>,
  named \<open>toAbsolute_coords\<close> here.
\<close>

definition toAbsolute_coords :: "jsval list \<Rightarrow> jsval list \<Rightarrow> jsval list" where
  "toAbsolute_coords p cs = map (\<lambda>(i, val). js_add val (idx p (i mod 2))) (enumerate 0 cs)"

definition toAbsolute :: "(DrawCommand, DrawCommand) stage" where
  "toAbsolute s c =
     Inr (s, \<lparr>commandChar = toUpperCase (commandChar c),
              coords = toAbsolute_coords (lastPoint s) (coords c)\<rparr>)"

text \<open>
  \<^verbatim>\<open>prependReflexedControlPoint\<close>. The point prepended is
  \<^verbatim>\<open>lastPoint.map((axis, idx) => 2 * lastPoint[idx] - lastControl[idx])\<close>, named \<open>reflexed\<close>
  here. \<^verbatim>\<open>lastControl[idx]\<close> throws while \<^verbatim>\<open>lastControl\<close> is \<^verbatim>\<open>undefined\<close>, which happens as
  soon as \<^verbatim>\<open>lastPoint\<close> has an element to map over.
\<close>

definition reflexed :: "jsval list \<Rightarrow> jsval list \<Rightarrow> jsval list" where
  "reflexed p lc = map (\<lambda>i. js_sub (js_mul (Num 2) (idx p i)) (idx lc i)) [0 ..< length p]"

definition prependReflexedControlPoint :: "(DrawCommand, DrawCommand) stage" where
  "prependReflexedControlPoint s c =
     (case lastControl s of
        None \<Rightarrow>
          if lastPoint s = []
          then Inr (s, \<lparr>commandChar = (if commandChar c = CHR ''T'' then CHR ''Q'' else CHR ''C''),
                        coords = coords c\<rparr>)
          else Inl TypeError
      | Some lc \<Rightarrow>
          Inr (s, \<lparr>commandChar = (if commandChar c = CHR ''T'' then CHR ''Q'' else CHR ''C''),
                   coords = reflexed (lastPoint s) lc @ coords c\<rparr>))"

text \<open>
  \<^verbatim>\<open>splitArgsSequence\<close>. The dispatch table below only lets the letters M, L, T, Q, S and C
  reach it; for any other letter \<^verbatim>\<open>numbOfArgsByCommand[commandChar]\<close> would be \<^verbatim>\<open>undefined\<close>,
  written as the size 0 here.
\<close>

definition splitArgsSequence :: "(DrawCommand, DrawCommand list) stage" where
  "splitArgsSequence s c =
     Inr (s, map (\<lambda>args. \<lparr>commandChar = commandChar c, coords = args\<rparr>)
               (chunk (coords c)
                  (case numbOfArgsByCommand (commandChar c) of Some n \<Rightarrow> n | None \<Rightarrow> 0)))"

definition fixMSequence :: "(DrawCommand list, DrawCommand list) stage" where
  "fixMSequence s commands =
     Inr (s, map (\<lambda>(i, c). \<lparr>commandChar = (if i > 0 then CHR ''L'' else CHR ''M''), coords = coords c\<rparr>)
               (enumerate 0 commands))"

text \<open>
  \<^verbatim>\<open>lineToFirstPoint\<close>. With \<^verbatim>\<open>firstPoint\<close> still \<^verbatim>\<open>undefined\<close> the command built has no
  coordinates and the next function of the pipe, \<^verbatim>\<open>storeLastPoint\<close>, throws on
  \<^verbatim>\<open>coords.slice\<close>; that error is raised here.
\<close>

definition lineToFirstPoint :: "(unit, DrawCommand) stage" where
  "lineToFirstPoint s u =
     (case firstPoint s of
        None \<Rightarrow> Inl TypeError
      | Some fp \<Rightarrow> Inr (s, \<lparr>commandChar = CHR ''L'', coords = fp\<rparr>))"

subsection \<open>The parsing pipelines\<close>

text \<open>
  The pipelines \<^verbatim>\<open>L\<close>, \<^verbatim>\<open>M\<close>, \<^verbatim>\<open>Q\<close>, \<^verbatim>\<open>T\<close>, \<^verbatim>\<open>V\<close>, \<^verbatim>\<open>Z\<close>, \<^verbatim>\<open>l\<close>, \<^verbatim>\<open>m\<close>, \<^verbatim>\<open>q\<close>, \<^verbatim>\<open>t\<close> and \<^verbatim>\<open>v\<close>
  (lines 185 to 205) carry the prefix \<open>pipe_\<close>, which leaves the single letters free for
  variables.
\<close>

definition pipe_L :: "(DrawCommand, DrawCommand list) stage" where
  "pipe_L = pipe storeLastPoint splitArgsSequence"

definition pipe_M :: "(DrawCommand, DrawCommand list) stage" where
  "pipe_M = pipe storeFirstPoint (pipe pipe_L fixMSequence)"

definition pipe_Q :: "(DrawCommand, DrawCommand list) stage" where
  "pipe_Q = pipe storeLastPoint (pipe storeLastControl splitArgsSequence)"

definition pipe_T :: "(DrawCommand, DrawCommand list) stage" where
  "pipe_T =
     pipe splitArgsSequence
       (map_stage (pipe prependReflexedControlPoint (pipe storeLastPoint storeLastControl)))"

definition pipe_V :: "(DrawCommand, DrawCommand list) stage" where
  "pipe_V = pipe toLine pipe_L"

definition pipe_Z :: "(unit, DrawCommand list) stage" where
  "pipe_Z = pipe lineToFirstPoint pipe_L"

definition pipe_l :: "(DrawCommand, DrawCommand list) stage" where
  "pipe_l = pipe toAbsolute pipe_L"

definition pipe_m :: "(DrawCommand, DrawCommand list) stage" where
  "pipe_m = pipe toAbsolute pipe_M"

definition pipe_q :: "(DrawCommand, DrawCommand list) stage" where
  "pipe_q = pipe toAbsolute pipe_Q"

definition pipe_t :: "(DrawCommand, DrawCommand list) stage" where
  "pipe_t = pipe toAbsolute pipe_T"

definition pipe_v :: "(DrawCommand, DrawCommand list) stage" where
  "pipe_v = pipe toLine pipe_l"

definition init :: "(DrawCommand, DrawCommand list) stage \<Rightarrow> (char \<times> string, DrawCommand list) stage" where
  "init cmdPipe = pipe getCommandObj cmdPipe"

text \<open>
  \<^verbatim>\<open>CloseIfOpen\<close> ignores the command and the segment. \<^verbatim>\<open>isEqual\<close> reads
  \<^verbatim>\<open>firstPoint.length\<close> first, which throws while \<^verbatim>\<open>firstPoint\<close> is \<^verbatim>\<open>undefined\<close>.
\<close>

definition CloseIfOpen :: "(char \<times> string, DrawCommand list) stage" where
  "CloseIfOpen s a =
     (case firstPoint s of
        None \<Rightarrow> Inl TypeError
      | Some fp \<Rightarrow> if \<not> isEqual fp (lastPoint s) then pipe_Z s () else Inr (s, []))"

text \<open>The dispatch table \<^verbatim>\<open>parse\<close>, in the order of the source.\<close>

definition parse :: "char \<rightharpoonup> (char \<times> string, DrawCommand list) stage" where
  "parse =
     map_of
       [(CHR ''M'', init pipe_M), (CHR ''L'', init pipe_L), (CHR ''Q'', init pipe_Q),
        (CHR ''T'', init pipe_T), (CHR ''V'', init pipe_V), (CHR ''Z'', CloseIfOpen),
        (CHR ''m'', init pipe_m), (CHR ''l'', init pipe_l), (CHR ''q'', init pipe_q),
        (CHR ''t'', init pipe_t), (CHR ''v'', init pipe_v),
        (CHR ''C'', init pipe_Q), (CHR ''S'', init pipe_T), (CHR ''H'', init pipe_V),
        (CHR ''c'', init pipe_q), (CHR ''s'', init pipe_t), (CHR ''h'', init pipe_v),
        (CHR ''z'', CloseIfOpen)]"

section \<open>The emitter and the command loop\<close>

text \<open>
  The graphics object is the record of the calls it has received, each a method name with
  its arguments. It is taken to offer the four methods of \<^verbatim>\<open>pixiDrawFns\<close>, none of which
  throws. A command whose letter has no entry in \<^verbatim>\<open>pixiDrawFns\<close> would call \<^verbatim>\<open>undefined\<close>.
\<close>

type_synonym graphics = "(string \<times> jsval list) list"

fun callCommands :: "DrawCommand list \<Rightarrow> graphics \<Rightarrow> graphics \<times> error option" where
  "callCommands [] g = (g, None)"
| "callCommands (c # cs) g =
     (case pixiDrawFns (commandChar c) of
        None \<Rightarrow> (g, Some TypeError)
      | Some fn \<Rightarrow> callCommands cs (g @ [(fn, coords c)]))"

text \<open>
  The body of \<^verbatim>\<open>forEach\<close> (lines 222 to 226), segment after segment. An exception ends the
  loop; the calls already made stay made.
\<close>

fun forEach_segment :: "path_state \<Rightarrow> graphics \<Rightarrow> string list \<Rightarrow> path_state \<times> graphics \<times> error option" where
  "forEach_segment s g [] = (s, g, None)"
| "forEach_segment s g (segment # segments) =
     (case getCommand segment of
        None \<Rightarrow> (s, g, Some TypeError)
      | Some command \<Rightarrow>
          (case parse command of
             None \<Rightarrow> (s, g, Some TypeError)
           | Some handler \<Rightarrow>
               (case handler s (command, segment) of
                  Inl e \<Rightarrow> (s, g, Some e)
                | Inr (s', commands) \<Rightarrow>
                    (case callCommands commands g of
                       (g', Some e) \<Rightarrow> (s', g', Some e)
                     | (g', None) \<Rightarrow> forEach_segment s' g' segments))))"

text \<open>
  Line 26 is the expression statement \<^verbatim>\<open>cd\<close>. The name has no binding in the function
  (its parameters and its \<^verbatim>\<open>const\<close> and \<^verbatim>\<open>let\<close> declarations) nor in the module (its
  imports and \<^verbatim>\<open>parsePathData\<close> itself), so it resolves only if the host's global object
  defines it; \<open>genv\<close> says which global names the host defines. Reading an unresolvable
  name throws a ReferenceError.
\<close>

definition declared_names :: "string list" where
  "declared_names =
     [''d'', ''graphics'', ''commandRegex'', ''coordsRegex'', ''numbOfArgsByCommand'',
      ''pixiDrawFns'', ''isEqual'', ''lastPoint'', ''lastControl'', ''firstPoint'',
      ''storeFirstPoint'', ''storeLastPoint'', ''storeLastControl'', ''getCommand'',
      ''getCommandObj'', ''toLine'', ''toAbsolute'', ''prependReflexedControlPoint'',
      ''splitArgsSequence'', ''fixMSequence'', ''lineToFirstPoint'', ''callCommands'',
      ''L'', ''M'', ''Q'', ''T'', ''V'', ''Z'', ''l'', ''m'', ''q'', ''t'', ''v'', ''init'',
      ''CloseIfOpen'', ''parse'', ''chunk'', ''pipe'', ''tap'', ''parsePathData'']"

definition resolves :: "(string \<Rightarrow> bool) \<Rightarrow> string \<Rightarrow> bool" where
  "resolves genv x \<longleftrightarrow> x \<in> set declared_names \<or> genv x"

text \<open>
  Two hosts: one whose global object defines no name the function reads, and one that
  happens to define \<^verbatim>\<open>cd\<close>, in which the statement of line 26 does nothing.
\<close>

definition no_globals :: "string \<Rightarrow> bool" where
  "no_globals x \<longleftrightarrow> False"

definition cd_defined :: "string \<Rightarrow> bool" where
  "cd_defined x \<longleftrightarrow> x = ''cd''"

text \<open>
  \<^verbatim>\<open>parsePathData\<close>: the graphics object as the function leaves it, and the exception thrown
  (\<open>None\<close> when the function returns, and then it returns the graphics object).
\<close>

definition parsePathData :: "(string \<Rightarrow> bool) \<Rightarrow> string \<Rightarrow> graphics \<Rightarrow> graphics \<times> error option" where
  "parsePathData genv d g =
     (if \<not> resolves genv ''cd'' then (g, Some ReferenceError)
      else (case match_commandRegex d of
              None \<Rightarrow> (g, Some TypeError)
            | Some segments \<Rightarrow> snd (forEach_segment initial_state g segments)))"

section \<open>Auxiliary predicates\<close>



text \<open>
  The expansion of an M segment in the words of the specification (section 4.2, MoveTo
  repetition rule): the first group is a MoveTo and becomes the subpath start, every later
  group is a LineTo, and the current point is the end of the last group.
\<close>

definition moveTo_expansion :: "path_state \<Rightarrow> jsval list \<Rightarrow> error + path_state \<times> DrawCommand list" where
  "moveTo_expansion s cs =
     Inr (s\<lparr>lastPoint := drop (length cs - 2) cs, firstPoint := Some (take 2 cs)\<rparr>,
          \<lparr>commandChar = CHR ''M'', coords = take 2 cs\<rparr> #
          map (\<lambda>a. \<lparr>commandChar = CHR ''L'', coords = a\<rparr>) (chunk (drop 2 cs) 2))"













section \<open>Lemmas on the tokenizer and the command loop\<close>




















section \<open>Lemmas on arrays and the pipelines\<close>

lemma nat_max_diff: "nat (max (int n - int k) 0) = n - k"
  by linarith

lemma slice_first2 [simp]: "slice 0 (Some 2) xs = take 2 xs"
  by (simp add: slice_def rel_index_def min_def Let_def)

lemma slice_last2 [simp]: "slice (- 2) None xs = drop (length xs - 2) xs"
  using nat_max_diff [of "length xs" 2] by (simp add: slice_def rel_index_def)

lemma slice_ctrl [simp]: "slice (- 4) (Some (- 2)) xs = drop (length xs - 4) (take (length xs - 2) xs)"
  using nat_max_diff [of "length xs" 2] nat_max_diff [of "length xs" 4]
  by (simp add: slice_def rel_index_def Let_def)

lemma chunk_Nil [simp]: "chunk [] n = []"
  by (simp add: chunk.simps)

lemma chunk_Cons: "xs \<noteq> [] \<Longrightarrow> 0 < n \<Longrightarrow> chunk xs n = take n xs # chunk (drop n xs) n"
  by (subst chunk.simps) simp

lemma chunk_single: "xs \<noteq> [] \<Longrightarrow> length xs \<le> n \<Longrightarrow> chunk xs n = [xs]"
  by (subst chunk.simps) (cases n; auto simp: chunk.simps)


lemma numbOfArgs [simp]:
  "numbOfArgsByCommand (CHR ''M'') = Some 2" "numbOfArgsByCommand (CHR ''L'') = Some 2"
  "numbOfArgsByCommand (CHR ''T'') = Some 2" "numbOfArgsByCommand (CHR ''Q'') = Some 4"
  "numbOfArgsByCommand (CHR ''S'') = Some 4" "numbOfArgsByCommand (CHR ''C'') = Some 6"
  by (simp_all add: numbOfArgsByCommand_def)

lemma pixiDrawFns_simps [simp]:
  "pixiDrawFns (CHR ''M'') = Some ''moveTo''" "pixiDrawFns (CHR ''L'') = Some ''lineTo''"
  "pixiDrawFns (CHR ''Q'') = Some ''quadraticCurveTo''" "pixiDrawFns (CHR ''C'') = Some ''bezierCurveTo''"
  by (simp_all add: pixiDrawFns_def)

lemma toUpperCase_simps [simp]:
  "toUpperCase (CHR ''l'') = CHR ''L''" "toUpperCase (CHR ''m'') = CHR ''M''"
  "toUpperCase (CHR ''q'') = CHR ''Q''" "toUpperCase (CHR ''c'') = CHR ''C''"
  "toUpperCase (CHR ''t'') = CHR ''T''" "toUpperCase (CHR ''s'') = CHR ''S''"
  by (simp_all add: toUpperCase_def)

lemma pipe_L_eq:
  "pipe_L s c =
     Inr (s\<lparr>lastPoint := drop (length (coords c) - 2) (coords c)\<rparr>,
          map (\<lambda>a. \<lparr>commandChar = commandChar c, coords = a\<rparr>)
            (chunk (coords c) (case numbOfArgsByCommand (commandChar c) of Some n \<Rightarrow> n | None \<Rightarrow> 0)))"
  by (simp add: pipe_L_def pipe_def storeLastPoint_def splitArgsSequence_def)


lemma fixM_tail:
  "0 < n \<Longrightarrow>
   map (\<lambda>(i, c). \<lparr>commandChar = (if i > 0 then CHR ''L'' else CHR ''M''), coords = coords c\<rparr>)
     (enumerate n cmds) = map (\<lambda>c. \<lparr>commandChar = CHR ''L'', coords = coords c\<rparr>) cmds"
  by (induction cmds arbitrary: n) auto

lemma pipe_M_eq:
  assumes "cs \<noteq> []"
  shows "pipe_M s \<lparr>commandChar = CHR ''M'', coords = cs\<rparr> =
     Inr (s\<lparr>lastPoint := drop (length cs - 2) cs, firstPoint := Some (take 2 cs)\<rparr>,
          \<lparr>commandChar = CHR ''M'', coords = take 2 cs\<rparr> #
          map (\<lambda>a. \<lparr>commandChar = CHR ''L'', coords = a\<rparr>) (chunk (drop 2 cs) 2))"
  using assms
  by (simp add: pipe_M_def pipe_def storeFirstPoint_def pipe_L_eq fixMSequence_def chunk_Cons
      fixM_tail comp_def)

lemma pipe_rel_eq:
  "pipe_l s \<lparr>commandChar = CHR ''l'', coords = cs\<rparr> =
     pipe_L s \<lparr>commandChar = CHR ''L'', coords = toAbsolute_coords (lastPoint s) cs\<rparr>"
  "pipe_m s \<lparr>commandChar = CHR ''m'', coords = cs\<rparr> =
     pipe_M s \<lparr>commandChar = CHR ''M'', coords = toAbsolute_coords (lastPoint s) cs\<rparr>"
  "pipe_q s \<lparr>commandChar = CHR ''q'', coords = cs\<rparr> =
     pipe_Q s \<lparr>commandChar = CHR ''Q'', coords = toAbsolute_coords (lastPoint s) cs\<rparr>"
  "pipe_q s \<lparr>commandChar = CHR ''c'', coords = cs\<rparr> =
     pipe_Q s \<lparr>commandChar = CHR ''C'', coords = toAbsolute_coords (lastPoint s) cs\<rparr>"
  "pipe_t s \<lparr>commandChar = CHR ''t'', coords = cs\<rparr> =
     pipe_T s \<lparr>commandChar = CHR ''T'', coords = toAbsolute_coords (lastPoint s) cs\<rparr>"
  "pipe_t s \<lparr>commandChar = CHR ''s'', coords = cs\<rparr> =
     pipe_T s \<lparr>commandChar = CHR ''S'', coords = toAbsolute_coords (lastPoint s) cs\<rparr>"
  by (simp_all add: pipe_l_def pipe_m_def pipe_q_def pipe_t_def pipe_def toAbsolute_def)

lemma toAbsolute_coords_length [simp]: "length (toAbsolute_coords p cs) = length cs"
  by (simp add: toAbsolute_coords_def)

lemma toAbsolute_coords_nth:
  "i < length cs \<Longrightarrow> toAbsolute_coords p cs ! i = js_add (cs ! i) (idx p (i mod 2))"
  by (simp add: toAbsolute_coords_def nth_enumerate_eq)


lemma concat_chunk: "0 < n \<Longrightarrow> concat (chunk xs n) = xs"
proof (induction xs n rule: chunk.induct)
  case (1 xs n)
  show ?case
  proof (cases "xs = []")
    case True
    then show ?thesis by simp
  next
    case False
    with "1.IH" "1.prems" have "concat (chunk (drop n xs) n) = drop n xs" by simp
    with False "1.prems" show ?thesis by (simp add: chunk_Cons)
  qed
qed

lemma toLine_relative:
  assumes "c = CHR ''h'' \<or> c = CHR ''v''"
  shows "toLine s \<lparr>commandChar = c, coords = cs\<rparr> =
     Inr (s, \<lparr>commandChar = CHR ''l'',
              coords = snd (foldl (toLine_step (if c = CHR ''h'' then 0 else 1)) ([Num 0, Num 0], []) cs)\<rparr>)"
  using assms by (auto simp: toLine_def Let_def split: prod.splits)

lemma pipe_v_relative:
  assumes "c = CHR ''h'' \<or> c = CHR ''v''"
  shows "pipe_v s \<lparr>commandChar = c, coords = cs\<rparr> =
     pipe_L s \<lparr>commandChar = CHR ''L'',
       coords = toAbsolute_coords (lastPoint s)
         (snd (foldl (toLine_step (if c = CHR ''h'' then 0 else 1)) ([Num 0, Num 0], []) cs))\<rparr>"
  by (simp add: pipe_v_def pipe_def toLine_relative [OF assms] pipe_rel_eq)

lemma toAbsolute_coords_point:
  "i < length cs \<Longrightarrow>
   toAbsolute_coords [x, y] cs ! i = js_add (cs ! i) (if even i then x else y)"
  by (auto simp: toAbsolute_coords_nth idx_def odd_iff_mod_2_eq_one)











lemma toLine_step_pair:
  "toLine_step axis (base, acc) a =
     (arr_set base axis a, acc @ (if truthy a then arr_set base axis a else [a]))"
  by (simp add: toLine_step_def Let_def)


lemma arr_set_point: "arr_set [x, y] 0 a = [a, y]" "arr_set [x, y] (Suc 0) a = [x, a]"
  by (simp_all add: arr_set_def)



lemma drop_last2_length: "2 \<le> length cs \<Longrightarrow> length (drop (length cs - 2) cs) = 2"
  by simp






lemma reflexed_length [simp]: "length (reflexed p lc) = length p"
  by (simp add: reflexed_def)











lemma toUpperCase_upper [simp]:
  "toUpperCase (CHR ''M'') = CHR ''M''" "toUpperCase (CHR ''L'') = CHR ''L''"
  "toUpperCase (CHR ''Q'') = CHR ''Q''" "toUpperCase (CHR ''C'') = CHR ''C''"
  "toUpperCase (CHR ''T'') = CHR ''T''" "toUpperCase (CHR ''S'') = CHR ''S''"
  by (simp_all add: toUpperCase_def)






























section \<open>The stray statement of line 26\<close>

text \<open>
  C1. Every invocation of \<^verbatim>\<open>parsePathData\<close>, whatever the path string and the graphics
  object, throws before the command loop starts: the identifier \<^verbatim>\<open>cd\<close> of line 26 is bound
  nowhere in the function or the module, so in a host that defines no global of that name
  the statement throws a ReferenceError, and the graphics object has received no call.
\<close>

theorem parsePathData_throws_at_cd:
  "\<not> genv ''cd'' \<Longrightarrow> parsePathData genv d g = (g, Some ReferenceError)"
  by (simp add: parsePathData_def resolves_def declared_names_def)

theorem parsePathData_throws_at_cd_witness:
  "\<not> no_globals ''cd'' \<and>
   parsePathData no_globals ''M 0 0 5 5 10 10'' [] = ([], Some ReferenceError)"
  using parsePathData_throws_at_cd [of no_globals "''M 0 0 5 5 10 10''" "[]"]
  by (simp add: no_globals_def)

section \<open>Unsupported command letters\<close>




section \<open>Input without a command segment\<close>

text \<open>
  C3. The claim is that a path string without any command segment, the empty string in
  particular, makes the parse return normally with no operation emitted. The code throws on
  the empty string: at line 26 when \<^verbatim>\<open>cd\<close> is unbound, and, in a host where \<^verbatim>\<open>cd\<close> happens
  to be defined, at line 222, where \<^verbatim>\<open>d.match(commandRegex)\<close> is \<^verbatim>\<open>null\<close> and \<^verbatim>\<open>forEach\<close> is
  read from it.
\<close>

theorem parsePathData_empty_string_throws:
  "parsePathData no_globals [] [] = ([], Some ReferenceError) \<and>
   parsePathData cd_defined [] [] = ([], Some TypeError)"
  by (simp add: parsePathData_def resolves_def declared_names_def match_commandRegex_def
      matchAllCommands.simps no_globals_def cd_defined_def)

section \<open>The number of arguments of an emitted operation\<close>




section \<open>The smooth curves T, t, S and s\<close>



section \<open>The M and m segments\<close>

text \<open>
  C6. An M or m segment with several coordinate groups gives a MoveTo for the first group
  and a LineTo for every later group, and the first group, made absolute for m, becomes the
  subpath start \<^verbatim>\<open>firstPoint\<close>. The segment has at least one number, as every segment that
  gets past \<^verbatim>\<open>getCommandObj\<close> has. The path \<^verbatim>\<open>M 0 0 5 5 10 10\<close> gives moveTo(0,0),
  lineTo(5,5), lineTo(10,10) and leaves the subpath start at (0,0).
\<close>

theorem moveTo_repetition:
  assumes "cs \<noteq> []"
  shows "pipe_M s \<lparr>commandChar = CHR ''M'', coords = cs\<rparr> = moveTo_expansion s cs \<and>
         pipe_m s \<lparr>commandChar = CHR ''m'', coords = cs\<rparr> =
           moveTo_expansion s (toAbsolute_coords (lastPoint s) cs) \<and>
         forEach_segment initial_state [] (matchAllCommands ''M 0 0 5 5 10 10'') =
           (\<lparr>lastPoint = [Num 10, Num 10], lastControl = None, firstPoint = Some [Num 0, Num 0]\<rparr>,
            [(''moveTo'', [Num 0, Num 0]), (''lineTo'', [Num 5, Num 5]), (''lineTo'', [Num 10, Num 10])],
            None)"
proof (intro conjI)
  show "pipe_M s \<lparr>commandChar = CHR ''M'', coords = cs\<rparr> = moveTo_expansion s cs"
    using assms by (simp add: pipe_M_eq moveTo_expansion_def)
  from assms have "toAbsolute_coords (lastPoint s) cs \<noteq> []"
    by (metis toAbsolute_coords_length length_0_conv)
  then show "pipe_m s \<lparr>commandChar = CHR ''m'', coords = cs\<rparr> =
      moveTo_expansion s (toAbsolute_coords (lastPoint s) cs)"
    by (simp add: pipe_rel_eq pipe_M_eq moveTo_expansion_def)
  show "forEach_segment initial_state [] (matchAllCommands ''M 0 0 5 5 10 10'') =
      (\<lparr>lastPoint = [Num 10, Num 10], lastControl = None, firstPoint = Some [Num 0, Num 0]\<rparr>,
       [(''moveTo'', [Num 0, Num 0]), (''lineTo'', [Num 5, Num 5]), (''lineTo'', [Num 10, Num 10])],
       None)"
    by code_simp
qed

theorem moveTo_repetition_witness:
  "[Num 1, Num 1, Num 2, Num 2, Num 3, Num 3] \<noteq> [] \<and>
   pipe_m \<lparr>lastPoint = [Num 10, Num 20], lastControl = None, firstPoint = None\<rparr>
     \<lparr>commandChar = CHR ''m'', coords = [Num 1, Num 1, Num 2, Num 2, Num 3, Num 3]\<rparr> =
   Inr (\<lparr>lastPoint = [Num 13, Num 23], lastControl = None, firstPoint = Some [Num 11, Num 21]\<rparr>,
        [\<lparr>commandChar = CHR ''M'', coords = [Num 11, Num 21]\<rparr>,
         \<lparr>commandChar = CHR ''L'', coords = [Num 12, Num 22]\<rparr>,
         \<lparr>commandChar = CHR ''L'', coords = [Num 13, Num 23]\<rparr>])"
  using moveTo_repetition [of "[Num 1, Num 1, Num 2, Num 2, Num 3, Num 3]"
      "\<lparr>lastPoint = [Num 10, Num 20], lastControl = None, firstPoint = None\<rparr>"]
  by (simp add: moveTo_expansion_def toAbsolute_coords_def idx_def chunk_Cons)

section \<open>Closing a subpath\<close>



section \<open>Horizontal and vertical lines\<close>

text \<open>
  C8. The claim is that every argument of an absolute H or V segment is combined with the
  other axis of the running current point into a full point that is drawn as a LineTo. An
  argument that is 0 is not: from the current point (3,5), \<^verbatim>\<open>H 0 20\<close> should draw
  lineTo(0,5) and lineTo(20,5), and the code builds the coordinate list 0, 20, 5 and draws
  lineTo(0,20) and lineTo(5). With arguments that are not 0 the code does what the claim
  says: from (0,5), \<^verbatim>\<open>H 10 20\<close> draws lineTo(10,5) and lineTo(20,5).
\<close>

theorem H_zero_argument_drawn_wrong:
  "toLine \<lparr>lastPoint = [Num 3, Num 5], lastControl = None, firstPoint = Some [Num 3, Num 5]\<rparr>
     \<lparr>commandChar = CHR ''H'', coords = [Num 0, Num 20]\<rparr> =
   Inr (\<lparr>lastPoint = [Num 20, Num 5], lastControl = None, firstPoint = Some [Num 3, Num 5]\<rparr>,
        \<lparr>commandChar = CHR ''L'', coords = [Num 0, Num 20, Num 5]\<rparr>) \<and>
   parsePathData cd_defined ''M 3 5 H 0 20'' [] =
     ([(''moveTo'', [Num 3, Num 5]), (''lineTo'', [Num 0, Num 20]), (''lineTo'', [Num 5])], None) \<and>
   parsePathData cd_defined ''M 0 5 H 10 20'' [] =
     ([(''moveTo'', [Num 0, Num 5]), (''lineTo'', [Num 10, Num 5]), (''lineTo'', [Num 20, Num 5])], None)"
  by code_simp

section \<open>Relative segments\<close>

text \<open>
  C9. A segment with a lowercase letter other than z has its whole coordinate list made
  absolute once, by \<^verbatim>\<open>toAbsolute\<close>, before anything else looks at it: the value at index
  \<open>i\<close> gets \<^verbatim>\<open>lastPoint[i % 2]\<close> added, the x of the current point at the even indices and
  the y at the odd ones, and \<^verbatim>\<open>lastPoint\<close> is read as the segment found it. The result goes
  through the pipeline of the uppercase letter, which chunks, reflects and stores points
  and adds nothing more; for l the numbers emitted are exactly the converted list. For h
  and v the list converted is the one \<^verbatim>\<open>toLine\<close> builds on the base \<^verbatim>\<open>[0,0]\<close>, which leaves
  the state alone.
\<close>

theorem relative_to_absolute:
  "length (toAbsolute_coords p cs) = length cs \<and>
   (\<forall>i<length cs. toAbsolute_coords p cs ! i = js_add (cs ! i) (idx p (i mod 2))) \<and>
   (\<forall>i<length cs. toAbsolute_coords [x, y] cs ! i = js_add (cs ! i) (if even i then x else y)) \<and>
   pipe_l s \<lparr>commandChar = CHR ''l'', coords = cs\<rparr> =
     pipe_L s \<lparr>commandChar = CHR ''L'', coords = toAbsolute_coords (lastPoint s) cs\<rparr> \<and>
   pipe_m s \<lparr>commandChar = CHR ''m'', coords = cs\<rparr> =
     pipe_M s \<lparr>commandChar = CHR ''M'', coords = toAbsolute_coords (lastPoint s) cs\<rparr> \<and>
   pipe_q s \<lparr>commandChar = CHR ''q'', coords = cs\<rparr> =
     pipe_Q s \<lparr>commandChar = CHR ''Q'', coords = toAbsolute_coords (lastPoint s) cs\<rparr> \<and>
   pipe_q s \<lparr>commandChar = CHR ''c'', coords = cs\<rparr> =
     pipe_Q s \<lparr>commandChar = CHR ''C'', coords = toAbsolute_coords (lastPoint s) cs\<rparr> \<and>
   pipe_t s \<lparr>commandChar = CHR ''t'', coords = cs\<rparr> =
     pipe_T s \<lparr>commandChar = CHR ''T'', coords = toAbsolute_coords (lastPoint s) cs\<rparr> \<and>
   pipe_t s \<lparr>commandChar = CHR ''s'', coords = cs\<rparr> =
     pipe_T s \<lparr>commandChar = CHR ''S'', coords = toAbsolute_coords (lastPoint s) cs\<rparr> \<and>
   (\<forall>c\<in>{CHR ''h'', CHR ''v''}.
      pipe_v s \<lparr>commandChar = c, coords = cs\<rparr> =
        pipe_L s \<lparr>commandChar = CHR ''L'',
          coords = toAbsolute_coords (lastPoint s)
            (snd (foldl (toLine_step (if c = CHR ''h'' then 0 else 1)) ([Num 0, Num 0], []) cs))\<rparr>) \<and>
   (\<exists>s' ops. pipe_l s \<lparr>commandChar = CHR ''l'', coords = cs\<rparr> = Inr (s', ops) \<and>
      concat (map coords ops) = toAbsolute_coords (lastPoint s) cs)"
proof (intro conjI)
  show "\<forall>c\<in>{CHR ''h'', CHR ''v''}.
      pipe_v s \<lparr>commandChar = c, coords = cs\<rparr> =
        pipe_L s \<lparr>commandChar = CHR ''L'',
          coords = toAbsolute_coords (lastPoint s)
            (snd (foldl (toLine_step (if c = CHR ''h'' then 0 else 1)) ([Num 0, Num 0], []) cs))\<rparr>"
    using pipe_v_relative [of _ s cs] by blast
  show "\<exists>s' ops. pipe_l s \<lparr>commandChar = CHR ''l'', coords = cs\<rparr> = Inr (s', ops) \<and>
      concat (map coords ops) = toAbsolute_coords (lastPoint s) cs"
    by (simp add: pipe_rel_eq pipe_L_eq comp_def concat_chunk)
  show "\<forall>i<length cs. toAbsolute_coords [x, y] cs ! i = js_add (cs ! i) (if even i then x else y)"
    using toAbsolute_coords_point by blast
qed (simp_all add: pipe_rel_eq toAbsolute_coords_nth)

theorem relative_to_absolute_witness:
  "CHR ''h'' \<in> {CHR ''h'', CHR ''v''} \<and>
   pipe_v \<lparr>lastPoint = [Num 10, Num 20], lastControl = None, firstPoint = None\<rparr>
     \<lparr>commandChar = CHR ''h'', coords = [Num 5]\<rparr> =
   Inr (\<lparr>lastPoint = [Num 15, Num 20], lastControl = None, firstPoint = None\<rparr>,
        [\<lparr>commandChar = CHR ''L'', coords = [Num 15, Num 20]\<rparr>]) \<and>
   (3::nat) < length [Num 1, Num 2, Num 3, Num 4] \<and>
   toAbsolute_coords [Num 10, Num 20] [Num 1, Num 2, Num 3, Num 4] ! 3 = Num 24 \<and>
   pipe_l \<lparr>lastPoint = [Num 10, Num 20], lastControl = None, firstPoint = None\<rparr>
     \<lparr>commandChar = CHR ''l'', coords = [Num 1, Num 2, Num 3, Num 4]\<rparr> =
   Inr (\<lparr>lastPoint = [Num 13, Num 24], lastControl = None, firstPoint = None\<rparr>,
        [\<lparr>commandChar = CHR ''L'', coords = [Num 11, Num 22]\<rparr>,
         \<lparr>commandChar = CHR ''L'', coords = [Num 13, Num 24]\<rparr>])"
proof -
  let ?s = "\<lparr>lastPoint = [Num 10, Num 20], lastControl = None, firstPoint = None\<rparr>"
  let ?cs = "[Num 1, Num 2, Num 3, Num 4]"
  note inst = relative_to_absolute [of "lastPoint ?s" ?cs "Num 10" "Num 20" ?s]
  have abs: "toAbsolute_coords [Num 10, Num 20] ?cs = [Num 11, Num 22, Num 13, Num 24]"
    by (simp add: toAbsolute_coords_def idx_def)
  from inst have "\<forall>i<length ?cs. toAbsolute_coords [Num 10, Num 20] ?cs ! i =
      js_add (?cs ! i) (if even i then Num 10 else Num 20)"
    by blast
  then have "toAbsolute_coords [Num 10, Num 20] ?cs ! 3 = js_add (?cs ! 3) (Num 20)"
    by simp
  then have nth: "toAbsolute_coords [Num 10, Num 20] ?cs ! 3 = Num 24"
    by simp
  from inst have "pipe_l ?s \<lparr>commandChar = CHR ''l'', coords = ?cs\<rparr> =
        pipe_L ?s \<lparr>commandChar = CHR ''L'', coords = toAbsolute_coords (lastPoint ?s) ?cs\<rparr>"
    by blast
  then have "pipe_l ?s \<lparr>commandChar = CHR ''l'', coords = ?cs\<rparr> =
      Inr (\<lparr>lastPoint = [Num 13, Num 24], lastControl = None, firstPoint = None\<rparr>,
        [\<lparr>commandChar = CHR ''L'', coords = [Num 11, Num 22]\<rparr>,
         \<lparr>commandChar = CHR ''L'', coords = [Num 13, Num 24]\<rparr>])"
    by (simp add: abs pipe_L_eq chunk_Cons)
  moreover from relative_to_absolute [of "lastPoint ?s" "[Num 5]" "Num 10" "Num 20" ?s]
  have "\<forall>c\<in>{CHR ''h'', CHR ''v''}.
      pipe_v ?s \<lparr>commandChar = c, coords = [Num 5]\<rparr> =
        pipe_L ?s \<lparr>commandChar = CHR ''L'',
          coords = toAbsolute_coords (lastPoint ?s)
            (snd (foldl (toLine_step (if c = CHR ''h'' then 0 else 1)) ([Num 0, Num 0], []) [Num 5]))\<rparr>"
    by blast
  then have "pipe_v ?s \<lparr>commandChar = CHR ''h'', coords = [Num 5]\<rparr> =
      Inr (\<lparr>lastPoint = [Num 15, Num 20], lastControl = None, firstPoint = None\<rparr>,
        [\<lparr>commandChar = CHR ''L'', coords = [Num 15, Num 20]\<rparr>])"
    by (simp add: toLine_step_pair arr_set_point toAbsolute_coords_def idx_def pipe_L_eq chunk_single)
  ultimately show ?thesis using nth by simp
qed

section \<open>The argument 0 in toLine\<close>



end
